theory Spec2Isabelle
  imports Main
begin

section \<open>Strings\<close>

text \<open>
  A Python \<open>str\<close> is a sequence of code points. The model uses \<open>string\<close>, reading each
  \<open>char\<close> as the code point of the same number (0 to 255, that is ASCII and Latin-1);
  code points beyond 255 are outside the model.
\<close>

definition nl :: char where
  "nl = CHR 0x0A"

text \<open>
  \<open>str.lower()\<close> on code points below 256: the ASCII capitals and the Latin-1 capitals
  (0xC0 to 0xDE without the multiplication sign 0xD7) move up by 32, everything else stays.
\<close>

definition lower_char :: "char \<Rightarrow> char" where
  "lower_char c =
     (let n = (of_char c :: nat)
      in if (65 \<le> n \<and> n \<le> 90) \<or> (192 \<le> n \<and> n \<le> 222 \<and> n \<noteq> 215)
         then char_of (n + 32) else c)"

definition str_lower :: "string \<Rightarrow> string" where
  "str_lower s = map lower_char s"

text \<open>Python's \<open>w in s\<close> on strings: \<open>w\<close> occurs in \<open>s\<close> as a contiguous run.\<close>

fun str_in :: "string \<Rightarrow> string \<Rightarrow> bool" where
  "str_in w [] = (w = [])"
| "str_in w (c # s) = (take (length w) (c # s) = w \<or> str_in w s)"

section \<open>Regular expressions of \<open>concept_patterns\<close>\<close>

text \<open>
  The fragment of Python's \<open>re\<close> syntax that \<open>concept_patterns\<close> uses: literal text,
  the word boundary \<open>\b\<close>, concatenation, alternation \<open>|\<close> and the optional group
  \<open>(...)?\<close>.
\<close>

datatype regex =
    Lit string
  | WordB
  | Seq regex regex
  | Alt regex regex
  | Opt regex

text \<open>
  \<open>\w\<close> for a \<open>str\<close> pattern: the alphanumeric code points and the underscore. Below 256
  these are the ASCII digits and letters, \<open>_\<close>, and the Latin-1 letters and numerics
  0xAA, 0xB2, 0xB3, 0xB5, 0xB9, 0xBA, 0xBC to 0xBE, 0xC0 to 0xFF without 0xD7 and 0xF7.
\<close>

definition is_word :: "char \<Rightarrow> bool" where
  "is_word c =
     (let n = (of_char c :: nat)
      in (48 \<le> n \<and> n \<le> 57) \<or> (65 \<le> n \<and> n \<le> 90) \<or> n = 95 \<or> (97 \<le> n \<and> n \<le> 122)
         \<or> n = 170 \<or> n = 178 \<or> n = 179 \<or> n = 181 \<or> n = 185 \<or> n = 186
         \<or> (188 \<le> n \<and> n \<le> 190) \<or> (192 \<le> n \<and> n \<noteq> 215 \<and> n \<noteq> 247))"

text \<open>
  \<open>\b\<close> at position \<open>i\<close> of \<open>s\<close>: exactly one of the characters before and after the
  position is a word character (the ends of the string count as non-word).
\<close>

definition word_boundary :: "string \<Rightarrow> nat \<Rightarrow> bool" where
  "word_boundary s i =
     ((0 < i \<and> i \<le> length s \<and> is_word (s ! (i - 1))) \<noteq> (i < length s \<and> is_word (s ! i)))"

text \<open>
  \<open>re_match r s i\<close> lists the positions at which a match of \<open>r\<close> starting at position
  \<open>i\<close> of \<open>s\<close> can end, in the order the backtracking matcher tries them.
\<close>

fun re_match :: "regex \<Rightarrow> string \<Rightarrow> nat \<Rightarrow> nat list" where
  "re_match (Lit w) s i = (if take (length w) (drop i s) = w then [i + length w] else [])"
| "re_match WordB s i = (if word_boundary s i then [i] else [])"
| "re_match (Seq a b) s i = concat (map (re_match b s) (re_match a s i))"
| "re_match (Alt a b) s i = re_match a s i @ re_match b s i"
| "re_match (Opt a) s i = re_match a s i @ [i]"

text \<open>\<open>re.search(r, s)\<close> is truthy when a match starts at some position of \<open>s\<close>.\<close>

definition re_search :: "regex \<Rightarrow> string \<Rightarrow> bool" where
  "re_search r s = list_ex (\<lambda>i. re_match r s i \<noteq> []) [0..<Suc (length s)]"

definition word_pat :: "string \<Rightarrow> regex" where
  "word_pat w = Seq WordB (Seq (Lit w) WordB)"

definition opt_word_pat :: "string \<Rightarrow> string \<Rightarrow> regex" where
  "opt_word_pat w suffix = Seq WordB (Seq (Lit w) (Seq (Opt (Lit suffix)) WordB))"

section \<open>The classifier\<close>

text \<open>The dictionary \<open>concept_patterns\<close>, in insertion order (the order of iteration).\<close>

definition concept_patterns :: "(regex \<times> string) list" where
  "concept_patterns =
     [(Alt (word_pat ''venv'') (Lit ''virtual environment''), ''virtual_environment''),
      (word_pat ''django'', ''django_framework''),
      (word_pat ''flask'', ''flask_framework''),
      (word_pat ''api'', ''api_development''),
      (word_pat ''deployment'', ''deployment''),
      (word_pat ''docker'', ''docker''),
      (opt_word_pat ''test'' ''ing'', ''testing''),
      (opt_word_pat ''debug'' ''ging'', ''debugging'')]"

record analysis =
  category :: string
  difficulty :: string

text \<open>
  The loop over \<open>concept_patterns.items()\<close>: the category starts as \<open>general\<close> and the
  first pattern found in the text sets it and leaves the loop.
\<close>

fun match_category :: "(regex \<times> string) list \<Rightarrow> string \<Rightarrow> string" where
  "match_category [] question_lower = ''general''"
| "match_category ((pattern, cat) # rest) question_lower =
     (if re_search pattern question_lower then cat else match_category rest question_lower)"

definition analyze_question :: "string \<Rightarrow> analysis" where
  "analyze_question question =
     (let question_lower = str_lower question;
          cat = match_category concept_patterns question_lower;
          diff =
            (if list_ex (\<lambda>word. str_in word question_lower)
                  [''advanced'', ''complex'', ''architecture'']
             then ''advanced''
             else if list_ex (\<lambda>word. str_in word question_lower)
                  [''deploy'', ''optimize'', ''secure'']
             then ''intermediate''
             else ''beginner'')
      in \<lparr>category = cat, difficulty = diff\<rparr>)"

section \<open>The knowledge base\<close>

text \<open>
  The three tables of \<open>setup_knowledge_base\<close>. A table is the list of its rows in the
  order a scan of the table returns them (rowid order); every column holds a value of its
  declared type. The clock \<open>datetime.now()\<close> is a parameter of the operations that read it.
\<close>

type_synonym datetime = nat

record qa_pair =
  qa_id :: nat
  qa_question :: string
  qa_answer :: string
  qa_category :: string
  qa_difficulty :: string
  qa_timestamp :: datetime

record user_interaction =
  ui_id :: nat
  ui_question :: string
  ui_matched_response :: string
  ui_helpful :: bool
  ui_timestamp :: datetime

record code_example =
  ce_id :: nat
  ce_concept :: string
  ce_code :: string
  ce_explanation :: string
  ce_difficulty :: string

text \<open>
  The state of an \<open>EnhancedPythonMentor\<close>: the database behind \<open>self.cursor\<close>, and the
  prompts handed to \<open>self.model.generate\<close> so far (oldest first), which records every
  call of the model.
\<close>

record mentor =
  qa_pairs :: "qa_pair list"
  user_interactions :: "user_interaction list"
  code_examples :: "code_example list"
  generate_calls :: "string list"

text \<open>An \<open>INTEGER PRIMARY KEY\<close> left out of an \<open>INSERT\<close> is one more than the largest in use.\<close>

definition next_id :: "nat list \<Rightarrow> nat" where
  "next_id ids = Suc (fold max ids 0)"

text \<open>\<open>cursor.fetchone()\<close>: the first row of the result, or \<open>None\<close>.\<close>

fun fetchone :: "'a list \<Rightarrow> 'a option" where
  "fetchone [] = None"
| "fetchone (row # rest) = Some row"

subsection \<open>The SQL operator \<open>LIKE\<close>\<close>

text \<open>
  SQLite's \<open>LIKE\<close> ignores the case of ASCII letters only; \<open>%\<close> in the pattern stands
  for any run of characters and \<open>_\<close> for any one character. No escape character is set.
  \<open>like_match\<close> is the comparison of a pattern (first argument) with a text.
\<close>

definition ascii_lower :: "char \<Rightarrow> char" where
  "ascii_lower c =
     (let n = (of_char c :: nat) in if 65 \<le> n \<and> n \<le> 90 then char_of (n + 32) else c)"

fun like_match :: "string \<Rightarrow> string \<Rightarrow> bool" where
  "like_match [] [] = True"
| "like_match [] (c # s) = False"
| "like_match (p # ps) [] = (p = CHR ''%'' \<and> like_match ps [])"
| "like_match (p # ps) (c # s) =
     (if p = CHR ''%'' then like_match ps (c # s) \<or> like_match (p # ps) s
      else (p = CHR ''_'' \<or> ascii_lower p = ascii_lower c) \<and> like_match ps s)"

text \<open>
  SQLite compares the pattern and the text as C strings: each ends at its first NUL
  character, and what follows the NUL takes no part in the comparison.
\<close>

definition nul :: char where
  "nul = CHR 0x00"

definition c_string :: "string \<Rightarrow> string" where
  "c_string s = takeWhile (\<lambda>c. c \<noteq> nul) s"

definition sql_like :: "string \<Rightarrow> string \<Rightarrow> bool" where
  "sql_like pattern s = like_match (c_string pattern) (c_string s)"

text \<open>
  SQLite refuses a \<open>LIKE\<close> pattern of more than 50000 bytes (its default limit) with the
  error \<open>LIKE or GLOB pattern too complex\<close>, which \<open>generate_response\<close> does not catch.
  The length counts the bytes of the UTF-8 text: one for a code point below 128, two for
  the others below 256. The operations below have no error result; they describe the code
  for patterns that \<open>like_pattern_ok\<close> accepts.
\<close>

definition utf8_length :: "string \<Rightarrow> nat" where
  "utf8_length s = sum_list (map (\<lambda>c. if (of_char c :: nat) < 128 then 1 else 2) s)"

definition like_pattern_limit :: nat where
  "like_pattern_limit = 50000"

definition like_pattern_ok :: "string \<Rightarrow> bool" where
  "like_pattern_ok pattern = (utf8_length pattern \<le> like_pattern_limit)"

section \<open>Seeding\<close>

definition basic_qa :: "(string \<times> string \<times> string \<times> string) list" where
  "basic_qa =
     [(''How do I start a new Python project?'',
       ''Here are the steps to start a new Python project:'' @ [nl] @
       ''                1. Create a new directory for your project'' @ [nl] @
       ''                2. Set up a virtual environment'' @ [nl] @
       ''                3. Initialize git repository'' @ [nl] @
       ''                4. Create requirements.txt'' @ [nl] @
       ''                5. Set up basic project structure'',
       ''project_setup'', ''beginner''),
      (''How do I deploy my Python application?'',
       ''Deployment steps typically include:'' @ [nl] @
       ''                1. Prepare your application (debug=False, environment variables)'' @ [nl] @
       ''                2. Choose a hosting platform (Heroku, AWS, DigitalOcean)'' @ [nl] @
       ''                3. Set up deployment configuration'' @ [nl] @
       ''                4. Deploy your application'' @ [nl] @
       ''                5. Monitor for any issues'',
       ''deployment'', ''intermediate'')]"

text \<open>\<open>INSERT INTO qa_pairs (question, answer, category, difficulty, timestamp)\<close>.\<close>

definition insert_qa ::
  "string \<Rightarrow> string \<Rightarrow> string \<Rightarrow> string \<Rightarrow> datetime \<Rightarrow> mentor \<Rightarrow> mentor" where
  "insert_qa q a c d t m =
     m\<lparr>qa_pairs := qa_pairs m @
          [\<lparr>qa_id = next_id (map qa_id (qa_pairs m)), qa_question = q, qa_answer = a,
            qa_category = c, qa_difficulty = d, qa_timestamp = t\<rparr>]\<rparr>"

text \<open>
  The loop of \<open>initialize_basic_qa\<close>; the clock is read once for each row, so it is given
  as the list of the values read.
\<close>

fun insert_all ::
  "(string \<times> string \<times> string \<times> string) list \<Rightarrow> datetime list \<Rightarrow> mentor \<Rightarrow> mentor" where
  "insert_all [] ts m = m"
| "insert_all ((q, a, c, d) # rest) ts m =
     insert_all rest (tl ts) (insert_qa q a c d (case ts of [] \<Rightarrow> 0 | t # _ \<Rightarrow> t) m)"

definition initialize_basic_qa :: "datetime list \<Rightarrow> mentor \<Rightarrow> mentor" where
  "initialize_basic_qa ts m = insert_all basic_qa ts m"

text \<open>
  \<open>setup_knowledge_base\<close> on an opened database: \<open>CREATE TABLE IF NOT EXISTS\<close> keeps
  the tables that exist, and the seeding runs when \<open>qa_pairs\<close> has no row.
\<close>

definition setup_knowledge_base :: "datetime list \<Rightarrow> mentor \<Rightarrow> mentor" where
  "setup_knowledge_base ts m =
     (if length (qa_pairs m) = 0 then initialize_basic_qa ts m else m)"

text \<open>A database file that does not exist yet: three empty tables, no call of the model.\<close>

definition fresh_store :: mentor where
  "fresh_store = \<lparr>qa_pairs = [], user_interactions = [], code_examples = [], generate_calls = []\<rparr>"

section \<open>The responder\<close>

definition get_relevant_code_example :: "string \<Rightarrow> mentor \<Rightarrow> string option" where
  "get_relevant_code_example concept m =
     (case fetchone (take 1 (filter (\<lambda>r. ce_concept r = concept) (code_examples m))) of
        Some result \<Rightarrow>
          Some (''```python'' @ [nl] @ ce_code result @ [nl] @ ''```'' @ [nl] @ ce_explanation result)
      | None \<Rightarrow> None)"

definition follow_ups :: "(string \<times> string list) list" where
  "follow_ups =
     [(''virtual_environment'',
        [''How do I activate the virtual environment?'', ''Should I include venv in git?'']),
      (''deployment'',
        [''How do I set up environment variables?'',
         ''What are the best practices for production deployment?'']),
      (''testing'',
        [''How do I write unit tests?'', ''What testing framework should I use?''])]"

definition generate_follow_up_questions :: "string \<Rightarrow> string list" where
  "generate_follow_up_questions cat =
     (case map_of follow_ups cat of Some qs \<Rightarrow> qs | None \<Rightarrow> [])"

record response =
  answer :: string
  code_example :: "string option"
  resp_category :: string
  resp_difficulty :: string
  follow_up_questions :: "string list"

text \<open>The \<open>SELECT answer FROM qa_pairs WHERE ...\<close> of \<open>generate_response\<close>.\<close>

definition lookup_matches :: "analysis \<Rightarrow> string \<Rightarrow> qa_pair \<Rightarrow> bool" where
  "lookup_matches a question r =
     (qa_category r = category a \<and> qa_difficulty r = difficulty a
      \<and> sql_like (''%'' @ question @ ''%'') (qa_question r))"

text \<open>
  \<open>generate_response\<close>. The text generator (tokenizer, \<open>model.generate\<close> with its fixed
  arguments, decoding of the first sequence) is the parameter \<open>gen\<close>, from the prompt to
  the decoded text; \<open>now\<close> is the clock at the insertion.
\<close>

definition generate_response ::
  "(string \<Rightarrow> string) \<Rightarrow> datetime \<Rightarrow> string \<Rightarrow> mentor \<Rightarrow> response \<times> mentor" where
  "generate_response gen now question m =
     (let a = analyze_question question;
          existing_answer = fetchone (map qa_answer (filter (lookup_matches a question) (qa_pairs m)));
          (resp, m') =
            (case existing_answer of
               Some ans \<Rightarrow> (ans, m)
             | None \<Rightarrow>
                 (let context = ''Python project question: '' @ question @ [nl] @ ''Detailed answer:'';
                      resp = gen context;
                      m1 = m\<lparr>generate_calls := generate_calls m @ [context]\<rparr>
                  in (resp, insert_qa question resp (category a) (difficulty a) now m1)))
      in (\<lparr>answer = resp,
           code_example = get_relevant_code_example (category a) m',
           resp_category = category a,
           resp_difficulty = difficulty a,
           follow_up_questions = generate_follow_up_questions (category a)\<rparr>, m'))"

text \<open>\<open>INSERT INTO user_interactions (question, matched_response, helpful, timestamp)\<close>.\<close>

definition record_interaction :: "datetime \<Rightarrow> string \<Rightarrow> string \<Rightarrow> bool \<Rightarrow> mentor \<Rightarrow> mentor" where
  "record_interaction now question resp helpful m =
     m\<lparr>user_interactions := user_interactions m @
          [\<lparr>ui_id = next_id (map ui_id (user_interactions m)), ui_question = question,
            ui_matched_response = resp, ui_helpful = helpful, ui_timestamp = now\<rparr>]\<rparr>"

section \<open>Example data\<close>

text \<open>A generator that answers every prompt with the same text.\<close>

definition canned_gen :: "string \<Rightarrow> string" where
  "canned_gen prompt = ''generated text''"

text \<open>A store with one cached deployment answer and three code examples.\<close>

definition example_store :: mentor where
  "example_store =
     \<lparr>qa_pairs =
        [\<lparr>qa_id = 1, qa_question = ''What is deployment?'',
          qa_answer = ''Deployment puts the application on a server.'',
          qa_category = ''deployment'', qa_difficulty = ''intermediate'', qa_timestamp = 5\<rparr>],
      user_interactions = [],
      code_examples =
        [\<lparr>ce_id = 1, ce_concept = ''docker'', ce_code = ''FROM python:3'',
          ce_explanation = ''The base image.'', ce_difficulty = ''beginner''\<rparr>,
         \<lparr>ce_id = 2, ce_concept = ''testing'', ce_code = ''assert add(1, 2) == 3'',
          ce_explanation = ''A test asserts a result.'', ce_difficulty = ''beginner''\<rparr>,
         \<lparr>ce_id = 3, ce_concept = ''testing'', ce_code = ''pytest.main()'',
          ce_explanation = ''Runs every test.'', ce_difficulty = ''advanced''\<rparr>],
      generate_calls = []\<rparr>"

section \<open>Auxiliary facts\<close>

lemma str_in_self: "str_in w (w @ v)"
proof (cases "w @ v")
  case Nil
  then show ?thesis by simp
next
  case (Cons c s)
  then have "take (length w) (c # s) = w"
    by (metis append_eq_conv_conj)
  then have "str_in w (c # s)" by simp
  with Cons show ?thesis by simp
qed

lemma str_in_append: "str_in w (u @ w @ v)"
proof (induction u)
  case Nil
  show ?case using str_in_self by simp
next
  case (Cons a u)
  then show ?case by simp
qed

lemma match_category_first:
  "(\<exists>i<length rs. re_search (fst (rs ! i)) s \<and> (\<forall>j<i. \<not> re_search (fst (rs ! j)) s)
        \<and> match_category rs s = snd (rs ! i))
   \<or> ((\<forall>i<length rs. \<not> re_search (fst (rs ! i)) s) \<and> match_category rs s = ''general'')"
proof (induction rs)
  case Nil
  then show ?case by simp
next
  case (Cons r rs)
  obtain p c where r: "r = (p, c)" by (cases r)
  show ?case
  proof (cases "re_search p s")
    case True
    then have "0 < length (r # rs) \<and> re_search (fst ((r # rs) ! 0)) s
        \<and> (\<forall>j<0. \<not> re_search (fst ((r # rs) ! j)) s)
        \<and> match_category (r # rs) s = snd ((r # rs) ! 0)"
      by (simp add: r)
    then show ?thesis by blast
  next
    case False
    from Cons.IH show ?thesis
    proof
      assume "\<exists>i<length rs. re_search (fst (rs ! i)) s \<and> (\<forall>j<i. \<not> re_search (fst (rs ! j)) s)
        \<and> match_category rs s = snd (rs ! i)"
      then obtain i where i: "i < length rs" "re_search (fst (rs ! i)) s"
        "\<forall>j<i. \<not> re_search (fst (rs ! j)) s" "match_category rs s = snd (rs ! i)"
        by blast
      have "\<forall>j<Suc i. \<not> re_search (fst ((r # rs) ! j)) s"
      proof (intro allI impI)
        fix j assume "j < Suc i"
        then show "\<not> re_search (fst ((r # rs) ! j)) s"
          using False i(3) by (cases j) (auto simp: r)
      qed
      with i False have "Suc i < length (r # rs) \<and> re_search (fst ((r # rs) ! Suc i)) s
        \<and> (\<forall>j<Suc i. \<not> re_search (fst ((r # rs) ! j)) s)
        \<and> match_category (r # rs) s = snd ((r # rs) ! Suc i)"
        by (simp add: r)
      then show ?thesis by blast
    next
      assume a: "(\<forall>i<length rs. \<not> re_search (fst (rs ! i)) s) \<and> match_category rs s = ''general''"
      have "\<forall>i<length (r # rs). \<not> re_search (fst ((r # rs) ! i)) s"
      proof (intro allI impI)
        fix i assume "i < length (r # rs)"
        then show "\<not> re_search (fst ((r # rs) ! i)) s"
          using False a by (cases i) (auto simp: r)
      qed
      with a False show ?thesis by (simp add: r)
    qed
  qed
qed

lemma filter_first:
  "filter P xs = y # ys \<Longrightarrow>
     \<exists>i<length xs. xs ! i = y \<and> P (xs ! i) \<and> (\<forall>j<i. \<not> P (xs ! j))"
proof (induction xs)
  case Nil
  then show ?case by simp
next
  case (Cons x xs)
  show ?case
  proof (cases "P x")
    case True
    with Cons.prems have "x = y" by simp
    with True have "0 < length (x # xs) \<and> (x # xs) ! 0 = y \<and> P ((x # xs) ! 0)
        \<and> (\<forall>j<0. \<not> P ((x # xs) ! j))"
      by simp
    then show ?thesis by blast
  next
    case False
    with Cons.prems have "filter P xs = y # ys" by simp
    then obtain i where i: "i < length xs" "xs ! i = y" "P (xs ! i)" "\<forall>j<i. \<not> P (xs ! j)"
      using Cons.IH by blast
    have "\<forall>j<Suc i. \<not> P ((x # xs) ! j)"
    proof (intro allI impI)
      fix j assume "j < Suc i"
      then show "\<not> P ((x # xs) ! j)" using False i(4) by (cases j) auto
    qed
    with i have "Suc i < length (x # xs) \<and> (x # xs) ! Suc i = y \<and> P ((x # xs) ! Suc i)
        \<and> (\<forall>j<Suc i. \<not> P ((x # xs) ! j))"
      by simp
    then show ?thesis by blast
  qed
qed

lemma like_match_percent: "like_match ''%'' s"
  by (induction s) auto

lemma like_match_skip: "like_match ps s \<Longrightarrow> like_match (CHR ''%'' # ps) (u @ s)"
proof (induction u)
  case Nil
  then show ?case by (cases s) auto
next
  case (Cons a u)
  then show ?case by simp
qed

lemma like_match_same: "like_match ps v \<Longrightarrow> like_match (q @ ps) (q @ v)"
proof (induction q)
  case Nil
  then show ?case by simp
next
  case (Cons p q)
  then have ih: "like_match (q @ ps) (q @ v)" by simp
  show ?case
  proof (cases "p = CHR ''%''")
    case True
    have "like_match (CHR ''%'' # q @ ps) ([] @ q @ v)" using ih by (rule like_match_skip)
    with True show ?thesis by simp
  next
    case False
    with ih show ?thesis by simp
  qed
qed

lemma like_match_contains: "like_match (''%'' @ q @ ''%'') (u @ q @ v)"
proof -
  have "like_match (q @ ''%'') (q @ v)" using like_match_percent by (rule like_match_same)
  then have "like_match (CHR ''%'' # q @ ''%'') (u @ q @ v)" by (rule like_match_skip)
  then show ?thesis by simp
qed

lemma c_string_no_nul: "nul \<notin> set s \<Longrightarrow> c_string s = s"
  by (auto simp add: c_string_def takeWhile_eq_all_conv)

lemma sql_like_contains:
  assumes "nul \<notin> set (u @ q @ v)"
  shows "sql_like (''%'' @ q @ ''%'') (u @ q @ v)"
proof -
  have "nul \<notin> set (''%'' @ q @ ''%'')" using assms by (simp add: nul_def)
  then have "c_string (''%'' @ q @ ''%'') = ''%'' @ q @ ''%''" by (rule c_string_no_nul)
  moreover have "c_string (u @ q @ v) = u @ q @ v" using assms by (rule c_string_no_nul)
  ultimately show ?thesis using like_match_contains [of q u v] by (simp add: sql_like_def)
qed

text \<open>The lookup at a NUL character, in the pattern and in the stored text.\<close>

lemma sql_like_nul_pattern:
  "sql_like (''%'' @ [nul] @ '' deployment'' @ ''%'') ''How do I deploy my Python application?''"
  by code_simp

lemma sql_like_nul_text: "\<not> sql_like ''%deployment%'' (''a'' @ [nul] @ ''deployment'')"
  by code_simp

lemma fetchone_filter_none:
  "\<forall>x\<in>set xs. \<not> P x \<Longrightarrow> fetchone (map f (filter P xs)) = None"
  by (simp add: filter_empty_conv[THEN iffD2])

lemma get_relevant_code_example_insert:
  "get_relevant_code_example c (insert_qa q a cat d t m) = get_relevant_code_example c m"
  by (simp add: get_relevant_code_example_def insert_qa_def)

lemma get_relevant_code_example_calls:
  "get_relevant_code_example c (m\<lparr>generate_calls := g\<rparr>) = get_relevant_code_example c m"
  by (simp add: get_relevant_code_example_def)

lemma deploy_question_analysis:
  "analyze_question ''How do I deploy my Python application?''
     = \<lparr>category = ''general'', difficulty = ''intermediate''\<rparr>"
  by code_simp

lemma match_category_values:
  "match_category concept_patterns s
     \<in> {''virtual_environment'', ''django_framework'', ''flask_framework'', ''api_development'',
        ''deployment'', ''docker'', ''testing'', ''debugging'', ''general''}"
  by (simp add: concept_patterns_def)

lemma analyze_question_category:
  "category (analyze_question q)
     \<in> {''virtual_environment'', ''django_framework'', ''flask_framework'', ''api_development'',
        ''deployment'', ''docker'', ''testing'', ''debugging'', ''general'', ''project_setup''}"
proof -
  have "category (analyze_question q) = match_category concept_patterns (str_lower q)"
    by (simp add: analyze_question_def Let_def)
  then show ?thesis
    using match_category_values [of "str_lower q"] by (simp only: insert_iff) blast
qed

lemma analyze_question_difficulty:
  "difficulty (analyze_question q) \<in> {''beginner'', ''intermediate'', ''advanced''}"
  by (simp add: analyze_question_def Let_def)

lemma initialize_basic_qa_rows:
  "take (length (qa_pairs m)) (qa_pairs (initialize_basic_qa ts m)) = qa_pairs m
   \<and> (\<forall>r\<in>set (drop (length (qa_pairs m)) (qa_pairs (initialize_basic_qa ts m))).
         qa_category r \<in> {''deployment'', ''project_setup''}
         \<and> qa_difficulty r \<in> {''beginner'', ''intermediate''})"
  by (simp add: initialize_basic_qa_def basic_qa_def insert_qa_def)

lemma generate_response_rows:
  "take (length (qa_pairs m)) (qa_pairs (snd (generate_response gen now q m))) = qa_pairs m
   \<and> (\<forall>r\<in>set (drop (length (qa_pairs m)) (qa_pairs (snd (generate_response gen now q m)))).
         qa_category r = category (analyze_question q)
         \<and> qa_difficulty r = difficulty (analyze_question q))"
  by (simp add: generate_response_def Let_def insert_qa_def split: option.split)

lemma concept_patterns_length: "length concept_patterns = 8"
  by (simp add: concept_patterns_def)

lemma flask_deployment_searches:
  "\<not> re_search (fst (concept_patterns ! 0)) (str_lower ''Flask deployment'')"
  "\<not> re_search (fst (concept_patterns ! 1)) (str_lower ''Flask deployment'')"
  "re_search (fst (concept_patterns ! 2)) (str_lower ''Flask deployment'')"
  "re_search (word_pat ''deployment'') (str_lower ''Flask deployment'')"
  by code_simp+

lemma what_is_deployment_searches:
  "re_search (word_pat ''deployment'') (str_lower ''What is deployment?'')"
  "\<not> re_search (Alt (word_pat ''venv'') (Lit ''virtual environment''))
       (str_lower ''What is deployment?'')"
  "\<not> re_search (word_pat ''django'') (str_lower ''What is deployment?'')"
  "\<not> re_search (word_pat ''flask'') (str_lower ''What is deployment?'')"
  "\<not> re_search (word_pat ''api'') (str_lower ''What is deployment?'')"
  by code_simp+

lemma testing_category: "category (analyze_question ''Testing?'') = ''testing''"
  by code_simp

lemma deployment_analysis:
  "category (analyze_question ''deployment'') = ''deployment''"
  "difficulty (analyze_question ''deployment'') = ''intermediate''"
  by code_simp+

lemma wildcard_question_facts:
  "analyze_question ''what_is DEPLOYMENT''
     = \<lparr>category = ''deployment'', difficulty = ''intermediate''\<rparr>"
  "sql_like ''%what_is DEPLOYMENT%'' ''What is deployment?''"
  "\<not> str_in ''what_is DEPLOYMENT'' ''What is deployment?''"
  "\<not> str_in ''What is deployment?'' ''what_is DEPLOYMENT''"
  by code_simp+

lemma longer_question_facts:
  "str_in ''What is deployment?'' ''What is deployment? Why?''"
  "analyze_question ''What is deployment? Why?''
     = \<lparr>category = ''deployment'', difficulty = ''intermediate''\<rparr>"
  "\<not> sql_like ''%What is deployment? Why?%'' ''What is deployment?''"
  by code_simp+

section \<open>Properties of the classifier\<close>

text \<open>
  C5: for every question, the category that \<open>analyze_question\<close> returns is the category
  of the first rule of \<open>concept_patterns\<close>, in the order of the list, whose pattern is
  found in the lowercased question, and it is \<open>general\<close> when no rule's pattern is found.
\<close>

theorem analyze_question_first_match:
  "(\<exists>i<length concept_patterns.
        re_search (fst (concept_patterns ! i)) (str_lower question)
        \<and> (\<forall>j<i. \<not> re_search (fst (concept_patterns ! j)) (str_lower question))
        \<and> category (analyze_question question) = snd (concept_patterns ! i))
   \<or> ((\<forall>i<length concept_patterns. \<not> re_search (fst (concept_patterns ! i)) (str_lower question))
       \<and> category (analyze_question question) = ''general'')"
  using match_category_first [of concept_patterns "str_lower question"]
  by (simp add: analyze_question_def Let_def)

text \<open>
  C5 at the question \<open>Flask deployment\<close>: the flask rule is the first whose pattern is
  found, before the deployment rule, so the category is \<open>flask_framework\<close>.
\<close>

theorem analyze_question_first_match_witness:
  "category (analyze_question ''Flask deployment'') = ''flask_framework''"
proof -
  let ?s = "str_lower ''Flask deployment''"
  have two: "2 < length concept_patterns" by (simp add: concept_patterns_length)
  from analyze_question_first_match [of "''Flask deployment''"] two flask_deployment_searches(3)
  obtain i where i: "i < length concept_patterns" "re_search (fst (concept_patterns ! i)) ?s"
    "\<forall>j<i. \<not> re_search (fst (concept_patterns ! j)) ?s"
    "category (analyze_question ''Flask deployment'') = snd (concept_patterns ! i)"
    by blast
  have "\<not> 2 < i" using i(3) flask_deployment_searches(3) by blast
  moreover have "i \<noteq> 0" using i(2) flask_deployment_searches(1) by metis
  moreover have "i \<noteq> 1" using i(2) flask_deployment_searches(2) by metis
  ultimately have "i = 2" by arith
  with i(4) show ?thesis by (simp add: concept_patterns_def)
qed

text \<open>
  C3 as stated fails: the lowercased \<open>Flask deployment\<close> matches \<open>\bdeployment\b\<close>,
  and its category is \<open>flask_framework\<close>, the flask rule standing earlier in the list.
\<close>

theorem deployment_category_counterexample:
  "re_search (word_pat ''deployment'') (str_lower ''Flask deployment'')
   \<and> category (analyze_question ''Flask deployment'') = ''flask_framework''
   \<and> ''flask_framework'' \<noteq> ''deployment''"
proof -
  have "category (analyze_question ''Flask deployment'') = ''flask_framework''"
    by code_simp
  with flask_deployment_searches(4) show ?thesis by simp
qed

text \<open>
  C3, as the code has it: a question whose lowercased text matches the deployment pattern
  \<open>\bdeployment\b\<close> gets the category \<open>deployment\<close> when none of the four rules listed
  before it (virtual environment, django, flask, api) matches the text.
\<close>

theorem deployment_pattern_category:
  assumes "re_search (word_pat ''deployment'') (str_lower question)"
    and "\<not> re_search (Alt (word_pat ''venv'') (Lit ''virtual environment'')) (str_lower question)"
    and "\<not> re_search (word_pat ''django'') (str_lower question)"
    and "\<not> re_search (word_pat ''flask'') (str_lower question)"
    and "\<not> re_search (word_pat ''api'') (str_lower question)"
  shows "category (analyze_question question) = ''deployment''"
  using assms by (simp add: analyze_question_def Let_def concept_patterns_def)

text \<open>
  C3 as amended, at the question \<open>What is deployment?\<close>.
\<close>

theorem deployment_pattern_category_witness:
  "re_search (word_pat ''deployment'') (str_lower ''What is deployment?'')
   \<and> category (analyze_question ''What is deployment?'') = ''deployment''"
  using what_is_deployment_searches(1)
    deployment_pattern_category [OF what_is_deployment_searches]
  by simp

text \<open>
  C6: a question whose lowercased text contains \<open>advanced\<close> or \<open>architecture\<close> gets the
  difficulty \<open>advanced\<close>, whatever its category.
\<close>

theorem advanced_difficulty:
  assumes "(\<exists>u v. str_lower question = u @ ''advanced'' @ v)
         \<or> (\<exists>u v. str_lower question = u @ ''architecture'' @ v)"
  shows "difficulty (analyze_question question) = ''advanced''"
proof -
  from assms have "str_in ''advanced'' (str_lower question)
      \<or> str_in ''architecture'' (str_lower question)"
    using str_in_append by metis
  then show ?thesis
    by (auto simp add: analyze_question_def Let_def)
qed

text \<open>
  C6 at the question \<open>Advanced Flask\<close>.
\<close>

theorem advanced_difficulty_witness:
  "str_lower ''Advanced Flask'' = ''advanced flask''
   \<and> difficulty (analyze_question ''Advanced Flask'') = ''advanced''"
proof -
  have low: "str_lower ''Advanced Flask'' = ''advanced flask''" by code_simp
  then have "str_lower ''Advanced Flask'' = [] @ ''advanced'' @ '' flask''" by simp
  then have "(\<exists>u v. str_lower ''Advanced Flask'' = u @ ''advanced'' @ v)
      \<or> (\<exists>u v. str_lower ''Advanced Flask'' = u @ ''architecture'' @ v)"
    by blast
  from advanced_difficulty [OF this] low show ?thesis by simp
qed

section \<open>Properties of the responder\<close>

text \<open>
  C7: the follow-up questions of \<open>testing\<close> are its two configured strings, and a
  category that is not a key of the table \<open>follow_ups\<close> gets the empty list.
\<close>

theorem follow_up_questions_table:
  "generate_follow_up_questions ''testing''
     = [''How do I write unit tests?'', ''What testing framework should I use?'']
   \<and> (cat \<notin> fst ` set follow_ups \<longrightarrow> generate_follow_up_questions cat = [])"
  by (auto simp add: generate_follow_up_questions_def follow_ups_def)

text \<open>
  C7 at the category \<open>general\<close>, which is not a key of the table.
\<close>

theorem follow_up_questions_table_witness:
  "generate_follow_up_questions ''testing''
     = [''How do I write unit tests?'', ''What testing framework should I use?'']
   \<and> generate_follow_up_questions ''general'' = []"
proof -
  have "''general'' \<notin> fst ` set follow_ups" by (simp add: follow_ups_def)
  with follow_up_questions_table [of "''general''"] show ?thesis by simp
qed

text \<open>
  C4 as stated fails: the lookup is not a substring test. The example store holds one
  row, with the question \<open>What is deployment?\<close>; the input \<open>what_is DEPLOYMENT\<close> is
  not a substring of it, nor it of the input, and yet the lookup finds the row (\<open>_\<close>
  stands for the blank, and the case of the letters is ignored): the model is not called,
  no row is added, and the stored answer is returned.
\<close>

theorem generate_response_miss_counterexample:
  "length (qa_pairs example_store) = 1
   \<and> \<not> str_in ''what_is DEPLOYMENT'' (qa_question (qa_pairs example_store ! 0))
   \<and> \<not> str_in (qa_question (qa_pairs example_store ! 0)) ''what_is DEPLOYMENT''
   \<and> generate_calls (snd (generate_response canned_gen 3 ''what_is DEPLOYMENT'' example_store))
       = []
   \<and> qa_pairs (snd (generate_response canned_gen 3 ''what_is DEPLOYMENT'' example_store))
       = qa_pairs example_store
   \<and> answer (fst (generate_response canned_gen 3 ''what_is DEPLOYMENT'' example_store))
       = ''Deployment puts the application on a server.''"
  using wildcard_question_facts
  by (simp add: generate_response_def Let_def example_store_def lookup_matches_def)

text \<open>
  C4, as the code has it: when no row of \<open>qa_pairs\<close> matches the lookup of
  \<open>generate_response\<close> (the category and the difficulty of the question, and the stored
  question \<open>LIKE\<close> the input between two \<open>%\<close>, with the wildcards, the ASCII case
  folding and the end at a NUL of \<open>sql_like\<close>), and the pattern is within the length
  that SQLite accepts, the model is called exactly once, on the prompt built from the
  question, and exactly one row is added to \<open>qa_pairs\<close>: the question, the generated text
  as its answer, and the category and difficulty that \<open>analyze_question\<close> gave. The
  generated text is the answer returned.
\<close>

theorem generate_response_miss:
  assumes "\<forall>r\<in>set (qa_pairs m).
      \<not> (qa_category r = category (analyze_question question)
         \<and> qa_difficulty r = difficulty (analyze_question question)
         \<and> sql_like (''%'' @ question @ ''%'') (qa_question r))"
    and "like_pattern_ok (''%'' @ question @ ''%'')"
  shows "generate_calls (snd (generate_response gen now question m))
       = generate_calls m @ [''Python project question: '' @ question @ [nl] @ ''Detailed answer:'']
     \<and> qa_pairs (snd (generate_response gen now question m))
       = qa_pairs m @
          [\<lparr>qa_id = next_id (map qa_id (qa_pairs m)), qa_question = question,
            qa_answer = gen (''Python project question: '' @ question @ [nl] @ ''Detailed answer:''),
            qa_category = category (analyze_question question),
            qa_difficulty = difficulty (analyze_question question), qa_timestamp = now\<rparr>]
     \<and> answer (fst (generate_response gen now question m))
       = gen (''Python project question: '' @ question @ [nl] @ ''Detailed answer:'')"
proof -
  have "\<forall>r\<in>set (qa_pairs m). \<not> lookup_matches (analyze_question question) question r"
    using assms(1) by (simp add: lookup_matches_def)
  then have "fetchone (map qa_answer
      (filter (lookup_matches (analyze_question question) question) (qa_pairs m))) = None"
    by (rule fetchone_filter_none)
  then show ?thesis
    by (simp add: generate_response_def Let_def insert_qa_def)
qed

text \<open>
  C4 as amended, on the seeded store at the question
  \<open>How do I deploy my Python application?\<close>: the pattern has 40 bytes, no seeded row
  matches, and there is one call of the model, a third row, and the generated text as the
  answer.
\<close>

theorem generate_response_miss_witness:
  "like_pattern_ok (''%'' @ ''How do I deploy my Python application?'' @ ''%'')
   \<and> generate_calls (snd (generate_response canned_gen 3 ''How do I deploy my Python application?''
        (setup_knowledge_base [1, 2] fresh_store)))
     = [''Python project question: How do I deploy my Python application?'' @ [nl]
          @ ''Detailed answer:'']
   \<and> length (qa_pairs (snd (generate_response canned_gen 3
        ''How do I deploy my Python application?'' (setup_knowledge_base [1, 2] fresh_store)))) = 3
   \<and> answer (fst (generate_response canned_gen 3 ''How do I deploy my Python application?''
        (setup_knowledge_base [1, 2] fresh_store))) = ''generated text''"
proof -
  let ?m = "setup_knowledge_base [1, 2] fresh_store"
  let ?q = "''How do I deploy my Python application?''"
  have rows: "length (qa_pairs ?m) = 2" "generate_calls ?m = []"
    by (simp_all add: setup_knowledge_base_def fresh_store_def initialize_basic_qa_def
        basic_qa_def insert_qa_def)
  have h: "\<forall>r\<in>set (qa_pairs ?m).
      \<not> (qa_category r = category (analyze_question ?q)
         \<and> qa_difficulty r = difficulty (analyze_question ?q)
         \<and> sql_like (''%'' @ ?q @ ''%'') (qa_question r))"
    by (simp add: deploy_question_analysis setup_knowledge_base_def fresh_store_def
        initialize_basic_qa_def basic_qa_def insert_qa_def)
  have ok: "like_pattern_ok (''%'' @ ?q @ ''%'')" by code_simp
  from generate_response_miss [OF h ok, of canned_gen 3] rows ok show ?thesis
    by (simp add: canned_gen_def)
qed

text \<open>
  C8: the \<open>code_example\<close> of the response is the first row of \<open>code_examples\<close> whose
  concept is the category of the question, formatted as the fenced code followed by the
  explanation, and it is \<open>None\<close> when no row has that concept.
\<close>

theorem code_example_first_row:
  "(\<exists>i<length (code_examples m).
        ce_concept (code_examples m ! i) = category (analyze_question question)
        \<and> (\<forall>j<i. ce_concept (code_examples m ! j) \<noteq> category (analyze_question question))
        \<and> code_example (fst (generate_response gen now question m))
            = Some (''```python'' @ [nl] @ ce_code (code_examples m ! i) @ [nl] @ ''```'' @ [nl]
                    @ ce_explanation (code_examples m ! i)))
   \<or> ((\<forall>i<length (code_examples m).
          ce_concept (code_examples m ! i) \<noteq> category (analyze_question question))
       \<and> code_example (fst (generate_response gen now question m)) = None)"
proof -
  let ?c = "category (analyze_question question)"
  let ?P = "\<lambda>r. ce_concept r = ?c"
  have ce: "code_example (fst (generate_response gen now question m))
      = get_relevant_code_example ?c m"
    by (simp add: generate_response_def Let_def get_relevant_code_example_insert
        get_relevant_code_example_calls split: option.split)
  show ?thesis
  proof (cases "filter ?P (code_examples m)")
    case Nil
    then have "\<forall>r\<in>set (code_examples m). ce_concept r \<noteq> ?c"
      by (simp add: filter_empty_conv)
    then have "\<forall>i<length (code_examples m). ce_concept (code_examples m ! i) \<noteq> ?c"
      by simp
    moreover have "get_relevant_code_example ?c m = None"
      using Nil by (simp add: get_relevant_code_example_def)
    ultimately show ?thesis using ce by simp
  next
    case (Cons y ys)
    then obtain i where i: "i < length (code_examples m)" "code_examples m ! i = y"
      "ce_concept (code_examples m ! i) = ?c"
      "\<forall>j<i. ce_concept (code_examples m ! j) \<noteq> ?c"
      using filter_first [of ?P "code_examples m" y ys] by blast
    have "get_relevant_code_example ?c m
        = Some (''```python'' @ [nl] @ ce_code y @ [nl] @ ''```'' @ [nl] @ ce_explanation y)"
      using Cons by (simp add: get_relevant_code_example_def)
    with i ce show ?thesis by auto
  qed
qed

text \<open>
  C8 on the example store, at the question \<open>Testing?\<close>: the first of the two
  \<open>testing\<close> rows is the one formatted.
\<close>

theorem code_example_first_row_witness:
  "code_example (fst (generate_response canned_gen 3 ''Testing?'' example_store))
     = Some (''```python'' @ [nl] @ ''assert add(1, 2) == 3'' @ [nl] @ ''```'' @ [nl]
             @ ''A test asserts a result.'')"
proof -
  let ?ce = "code_examples example_store"
  have len: "1 < length ?ce" by (simp add: example_store_def)
  have c0: "ce_concept (?ce ! 0) \<noteq> ''testing''" by (simp add: example_store_def)
  have c1: "ce_concept (?ce ! 1) = ''testing''" by (simp add: example_store_def)
  from code_example_first_row [of example_store "''Testing?''" canned_gen 3] len c1
  obtain i where i: "i < length ?ce" "ce_concept (?ce ! i) = ''testing''"
    "\<forall>j<i. ce_concept (?ce ! j) \<noteq> ''testing''"
    "code_example (fst (generate_response canned_gen 3 ''Testing?'' example_store))
       = Some (''```python'' @ [nl] @ ce_code (?ce ! i) @ [nl] @ ''```'' @ [nl]
               @ ce_explanation (?ce ! i))"
    unfolding testing_category by blast
  have "\<not> 1 < i" using i(3) c1 by blast
  moreover have "i \<noteq> 0" using i(2) c0 by metis
  ultimately have "i = 1" by arith
  with i(4) show ?thesis by (simp add: example_store_def)
qed

text \<open>
  C2 as stated fails: the example store holds a \<open>deployment\<close>/\<open>intermediate\<close> row with
  the question \<open>What is deployment?\<close>, the input \<open>What is deployment? Why?\<close> contains
  that question and classifies the same way, and yet the model is called and its text is
  the answer, not the stored one.
\<close>

theorem generate_response_hit_counterexample:
  "qa_category (qa_pairs example_store ! 0) = ''deployment''
   \<and> qa_difficulty (qa_pairs example_store ! 0) = ''intermediate''
   \<and> str_in (qa_question (qa_pairs example_store ! 0)) ''What is deployment? Why?''
   \<and> category (analyze_question ''What is deployment? Why?'') = ''deployment''
   \<and> difficulty (analyze_question ''What is deployment? Why?'') = ''intermediate''
   \<and> answer (fst (generate_response canned_gen 3 ''What is deployment? Why?'' example_store))
       = ''generated text''
   \<and> qa_answer (qa_pairs example_store ! 0) = ''Deployment puts the application on a server.''
   \<and> generate_calls (snd (generate_response canned_gen 3 ''What is deployment? Why?''
        example_store))
       = [''Python project question: What is deployment? Why?'' @ [nl] @ ''Detailed answer:'']"
  using longer_question_facts
  by (simp add: generate_response_def Let_def example_store_def lookup_matches_def
      insert_qa_def canned_gen_def)

text \<open>
  C2, as the code has it: for a stored row with category \<open>deployment\<close> and difficulty
  \<open>intermediate\<close> whose question has no NUL character, and a question that the stored
  question contains as a substring (the input inside the stored text), that classifies to
  the same category and difficulty and whose pattern is within the length that SQLite
  accepts, \<open>generate_response\<close> does not call the model and leaves the store as it was;
  the answer returned is that of the first row matching the lookup, which is the stored
  row itself or a row before it.
\<close>

theorem generate_response_hit:
  assumes "i < length (qa_pairs m)"
    and "qa_category (qa_pairs m ! i) = ''deployment''"
    and "qa_difficulty (qa_pairs m ! i) = ''intermediate''"
    and "qa_question (qa_pairs m ! i) = u @ question @ v"
    and "category (analyze_question question) = ''deployment''"
    and "difficulty (analyze_question question) = ''intermediate''"
    and "nul \<notin> set (qa_question (qa_pairs m ! i))"
    and "like_pattern_ok (''%'' @ question @ ''%'')"
  shows "snd (generate_response gen now question m) = m
     \<and> (\<exists>k\<le>i. lookup_matches (analyze_question question) question (qa_pairs m ! k)
           \<and> (\<forall>j<k. \<not> lookup_matches (analyze_question question) question (qa_pairs m ! j))
           \<and> answer (fst (generate_response gen now question m)) = qa_answer (qa_pairs m ! k))"
proof -
  let ?P = "lookup_matches (analyze_question question) question"
  have "nul \<notin> set (u @ question @ v)" using assms(4,7) by simp
  then have "sql_like (''%'' @ question @ ''%'') (u @ question @ v)"
    by (rule sql_like_contains)
  then have hit: "?P (qa_pairs m ! i)"
    using assms(2-6) by (simp add: lookup_matches_def)
  with assms(1) have "qa_pairs m ! i \<in> set (filter ?P (qa_pairs m))" by simp
  then obtain y ys where f: "filter ?P (qa_pairs m) = y # ys"
    by (cases "filter ?P (qa_pairs m)") auto
  then obtain k where k: "k < length (qa_pairs m)" "qa_pairs m ! k = y" "?P (qa_pairs m ! k)"
    "\<forall>j<k. \<not> ?P (qa_pairs m ! j)"
    using filter_first [of ?P "qa_pairs m" y ys] by blast
  have "k \<le> i" using k(4) hit by (meson not_le)
  moreover have "snd (generate_response gen now question m) = m"
    using f by (simp add: generate_response_def Let_def)
  moreover have "answer (fst (generate_response gen now question m)) = qa_answer y"
    using f by (simp add: generate_response_def Let_def)
  ultimately show ?thesis using k by auto
qed

text \<open>
  C2 as amended, on the example store at the question \<open>deployment\<close>, which the stored
  question \<open>What is deployment?\<close> contains; the stored question has no NUL and the
  pattern has 12 bytes.
\<close>

theorem generate_response_hit_witness:
  "nul \<notin> set (qa_question (qa_pairs example_store ! 0))
   \<and> like_pattern_ok (''%'' @ ''deployment'' @ ''%'')
   \<and> snd (generate_response canned_gen 3 ''deployment'' example_store) = example_store
   \<and> answer (fst (generate_response canned_gen 3 ''deployment'' example_store))
       = ''Deployment puts the application on a server.''"
proof -
  have a: "0 < length (qa_pairs example_store)"
    and b: "qa_category (qa_pairs example_store ! 0) = ''deployment''"
    and c: "qa_difficulty (qa_pairs example_store ! 0) = ''intermediate''"
    and d: "qa_question (qa_pairs example_store ! 0) = ''What is '' @ ''deployment'' @ ''?''"
    and e: "nul \<notin> set (qa_question (qa_pairs example_store ! 0))"
    by (simp_all add: example_store_def nul_def)
  have ok: "like_pattern_ok (''%'' @ ''deployment'' @ ''%'')" by code_simp
  from generate_response_hit [OF a b c d deployment_analysis e ok, of canned_gen 3] e ok
  show ?thesis by (simp add: example_store_def)
qed

text \<open>
  C1, what the code does: on a store seeded by the initializer, the question
  \<open>How do I deploy my Python application?\<close> is classified as \<open>general\<close> and
  \<open>intermediate\<close>, no seeded row matches the lookup, and the answer is the text the model
  generates, the model being called once.
\<close>

theorem seeded_deploy_question:
  "resp_category (fst (generate_response gen now ''How do I deploy my Python application?''
        (setup_knowledge_base ts fresh_store))) = ''general''
   \<and> resp_difficulty (fst (generate_response gen now ''How do I deploy my Python application?''
        (setup_knowledge_base ts fresh_store))) = ''intermediate''
   \<and> answer (fst (generate_response gen now ''How do I deploy my Python application?''
        (setup_knowledge_base ts fresh_store)))
       = gen (''Python project question: How do I deploy my Python application?'' @ [nl]
              @ ''Detailed answer:'')
   \<and> generate_calls (snd (generate_response gen now ''How do I deploy my Python application?''
        (setup_knowledge_base ts fresh_store)))
       = [''Python project question: How do I deploy my Python application?'' @ [nl]
              @ ''Detailed answer:'']"
  by (simp add: generate_response_def Let_def deploy_question_analysis setup_knowledge_base_def
      fresh_store_def initialize_basic_qa_def basic_qa_def insert_qa_def lookup_matches_def)

section \<open>Properties of the store\<close>

text \<open>
  C9: every operation keeps the rows that \<open>qa_pairs\<close> holds, in place and unchanged, and
  every row it adds has its category among the ten categories of the classifier and the
  seed data and its difficulty among \<open>beginner\<close>, \<open>intermediate\<close> and \<open>advanced\<close>.
  The operations are \<open>initialize_basic_qa\<close>, \<open>setup_knowledge_base\<close>,
  \<open>generate_response\<close> and \<open>record_interaction\<close>.
\<close>

theorem qa_pairs_rows_written:
  "(take (length (qa_pairs m)) (qa_pairs (initialize_basic_qa ts m)) = qa_pairs m
    \<and> (\<forall>r\<in>set (drop (length (qa_pairs m)) (qa_pairs (initialize_basic_qa ts m))).
          qa_category r
            \<in> {''virtual_environment'', ''django_framework'', ''flask_framework'',
               ''api_development'', ''deployment'', ''docker'', ''testing'', ''debugging'',
               ''general'', ''project_setup''}
          \<and> qa_difficulty r \<in> {''beginner'', ''intermediate'', ''advanced''}))
   \<and> (take (length (qa_pairs m)) (qa_pairs (setup_knowledge_base ts m)) = qa_pairs m
    \<and> (\<forall>r\<in>set (drop (length (qa_pairs m)) (qa_pairs (setup_knowledge_base ts m))).
          qa_category r
            \<in> {''virtual_environment'', ''django_framework'', ''flask_framework'',
               ''api_development'', ''deployment'', ''docker'', ''testing'', ''debugging'',
               ''general'', ''project_setup''}
          \<and> qa_difficulty r \<in> {''beginner'', ''intermediate'', ''advanced''}))
   \<and> (take (length (qa_pairs m)) (qa_pairs (snd (generate_response gen now question m)))
        = qa_pairs m
    \<and> (\<forall>r\<in>set (drop (length (qa_pairs m))
                    (qa_pairs (snd (generate_response gen now question m)))).
          qa_category r
            \<in> {''virtual_environment'', ''django_framework'', ''flask_framework'',
               ''api_development'', ''deployment'', ''docker'', ''testing'', ''debugging'',
               ''general'', ''project_setup''}
          \<and> qa_difficulty r \<in> {''beginner'', ''intermediate'', ''advanced''}))
   \<and> qa_pairs (record_interaction now' question' resp helpful m) = qa_pairs m"
proof -
  have h_init: "take (length (qa_pairs m)) (qa_pairs (initialize_basic_qa ts m)) = qa_pairs m
    \<and> (\<forall>r\<in>set (drop (length (qa_pairs m)) (qa_pairs (initialize_basic_qa ts m))).
          qa_category r
            \<in> {''virtual_environment'', ''django_framework'', ''flask_framework'',
               ''api_development'', ''deployment'', ''docker'', ''testing'', ''debugging'',
               ''general'', ''project_setup''}
          \<and> qa_difficulty r \<in> {''beginner'', ''intermediate'', ''advanced''})"
    using initialize_basic_qa_rows [of m ts] by (simp only: insert_iff) blast
  have h_setup: "take (length (qa_pairs m)) (qa_pairs (setup_knowledge_base ts m)) = qa_pairs m
    \<and> (\<forall>r\<in>set (drop (length (qa_pairs m)) (qa_pairs (setup_knowledge_base ts m))).
          qa_category r
            \<in> {''virtual_environment'', ''django_framework'', ''flask_framework'',
               ''api_development'', ''deployment'', ''docker'', ''testing'', ''debugging'',
               ''general'', ''project_setup''}
          \<and> qa_difficulty r \<in> {''beginner'', ''intermediate'', ''advanced''})"
  proof (cases "length (qa_pairs m) = 0")
    case True
    then have "setup_knowledge_base ts m = initialize_basic_qa ts m"
      by (simp add: setup_knowledge_base_def)
    with h_init show ?thesis by simp
  next
    case False
    then have "setup_knowledge_base ts m = m"
      by (simp add: setup_knowledge_base_def)
    then show ?thesis by simp
  qed
  have h_gen: "take (length (qa_pairs m)) (qa_pairs (snd (generate_response gen now question m)))
        = qa_pairs m
    \<and> (\<forall>r\<in>set (drop (length (qa_pairs m))
                    (qa_pairs (snd (generate_response gen now question m)))).
          qa_category r
            \<in> {''virtual_environment'', ''django_framework'', ''flask_framework'',
               ''api_development'', ''deployment'', ''docker'', ''testing'', ''debugging'',
               ''general'', ''project_setup''}
          \<and> qa_difficulty r \<in> {''beginner'', ''intermediate'', ''advanced''})"
    using generate_response_rows [of m gen now question]
      analyze_question_category [of question] analyze_question_difficulty [of question]
    by simp
  have "qa_pairs (record_interaction now' question' resp helpful m) = qa_pairs m"
    by (simp add: record_interaction_def)
  with h_init h_setup h_gen show ?thesis by blast
qed

text \<open>
  C9 on the example store: answering \<open>What is deployment? Why?\<close> adds a second row with
  a category and a difficulty of the enumerations and keeps the first row.
\<close>

theorem qa_pairs_rows_written_witness:
  "length (qa_pairs (snd (generate_response canned_gen 3 ''What is deployment? Why?''
        example_store))) = 2
   \<and> qa_category (last (qa_pairs (snd (generate_response canned_gen 3
        ''What is deployment? Why?'' example_store))))
       \<in> {''virtual_environment'', ''django_framework'', ''flask_framework'',
          ''api_development'', ''deployment'', ''docker'', ''testing'', ''debugging'',
          ''general'', ''project_setup''}
   \<and> qa_difficulty (last (qa_pairs (snd (generate_response canned_gen 3
        ''What is deployment? Why?'' example_store))))
       \<in> {''beginner'', ''intermediate'', ''advanced''}
   \<and> take 1 (qa_pairs (snd (generate_response canned_gen 3 ''What is deployment? Why?''
        example_store))) = qa_pairs example_store"
proof -
  let ?m' = "snd (generate_response canned_gen 3 ''What is deployment? Why?'' example_store)"
  let ?new = "drop (length (qa_pairs example_store)) (qa_pairs ?m')"
  have len: "length (qa_pairs example_store) = 1" by (simp add: example_store_def)
  have len': "length (qa_pairs ?m') = 2"
    using longer_question_facts
    by (simp add: generate_response_def Let_def example_store_def lookup_matches_def
        insert_qa_def)
  have "?new = [last (qa_pairs ?m')]"
    using longer_question_facts
    by (simp add: generate_response_def Let_def example_store_def lookup_matches_def
        insert_qa_def)
  then have new: "last (qa_pairs ?m') \<in> set ?new" by simp
  note all = qa_pairs_rows_written [of example_store "[]" canned_gen 3
      "''What is deployment? Why?''" 0 "[]" "[]" True]
  from all have keep: "take (length (qa_pairs example_store)) (qa_pairs ?m')
      = qa_pairs example_store"
    by blast
  from all have ball: "\<forall>r\<in>set ?new.
      qa_category r
        \<in> {''virtual_environment'', ''django_framework'', ''flask_framework'',
           ''api_development'', ''deployment'', ''docker'', ''testing'', ''debugging'',
           ''general'', ''project_setup''}
      \<and> qa_difficulty r \<in> {''beginner'', ''intermediate'', ''advanced''}"
    by blast
  from ball new have "qa_category (last (qa_pairs ?m'))
        \<in> {''virtual_environment'', ''django_framework'', ''flask_framework'',
           ''api_development'', ''deployment'', ''docker'', ''testing'', ''debugging'',
           ''general'', ''project_setup''}
      \<and> qa_difficulty (last (qa_pairs ?m')) \<in> {''beginner'', ''intermediate'', ''advanced''}"
    by (rule bspec)
  with keep len len' show ?thesis by simp
qed

section \<open>Properties of the interaction recorder\<close>

text \<open>
  C10: for every question, response text and helpful flag, \<open>record_interaction\<close> appends
  exactly one row to \<open>user_interactions\<close>, holding these values and the timestamp, and
  leaves \<open>qa_pairs\<close> and \<open>code_examples\<close> as they were.
\<close>

theorem record_interaction_appends:
  "user_interactions (record_interaction now question resp helpful m)
     = user_interactions m @
         [\<lparr>ui_id = next_id (map ui_id (user_interactions m)), ui_question = question,
           ui_matched_response = resp, ui_helpful = helpful, ui_timestamp = now\<rparr>]
   \<and> qa_pairs (record_interaction now question resp helpful m) = qa_pairs m
   \<and> code_examples (record_interaction now question resp helpful m) = code_examples m"
  by (simp add: record_interaction_def)

end
